theory Spec2Isabelle
  imports Main
begin

section \<open>Data model\<close>

text \<open>
  The three stores of the backend (relational store, key store, blob store) are one
  record \<open>world\<close>. Every handler is a function from the world (and the request) to the
  response, the list of store calls it issued in order, and the world afterwards.
  The sources are several snapshots of the same modules: the treehub routes keyed by
  team (\<open>upload_team\<close>, \<open>exists_team\<close>, \<open>download_team\<close>), the treehub routes
  keyed by namespace (\<open>upload_ns\<close>, \<open>download_ns\<close>) and three snapshots of the admin
  routes.
\<close>

type_synonym bytes = string

datatype UploadStatus = uploading | uploaded

text \<open>
  A row of the Object table. \<open>obj_tenant\<close> is the column the snapshots call
  \<open>team_id\<close>, \<open>namespace\<close> or \<open>namespace_id\<close>; the compound unique key is
  (\<open>obj_tenant\<close>, \<open>obj_object_id\<close>).
\<close>

record object_row =
  obj_tenant :: string
  obj_object_id :: string
  obj_size :: int
  obj_status :: UploadStatus

record namespace_row =
  ns_id :: string
  ns_created_at :: int
  ns_updated_at :: int

datatype TUFRepo = TUFRepo_image | TUFRepo_director

datatype TUFRole = TUFRole_root | TUFRole_targets | TUFRole_snapshot | TUFRole_timestamp

record key_pair =
  publicKey :: string
  privateKey :: string

text \<open>The root document as \<open>generateRoot\<close> returns it; see \<open>generateRoot\<close> below.\<close>

record root_doc =
  signed_expires :: int
  signed_version :: nat
  signed_keys :: "string list"
  signed_roles :: "(TUFRole \<times> string list \<times> nat) list"

record metadata_row =
  md_namespace_id :: string
  md_repo :: "TUFRepo option"
  md_role :: TUFRole
  md_version :: nat
  md_value :: root_doc
  md_expires_at :: "int option"

text \<open>
  A blob is addressed either by one flat key (\<open>putObject(bucketId, content)\<close> of the
  namespace snapshot) or by a bucket and a key inside it
  (\<open>putObject(bucket, key, content)\<close> of the other snapshots).
\<close>

datatype blob_loc = Flat string | InBucket string string

record world =
  teams :: "string list"
  namespaces :: "namespace_row list"
  metadata :: "metadata_row list"
  objects :: "object_row list"
  images :: "(string \<times> string) list"
  blobs :: "blob_loc \<rightharpoonup> bytes"
  buckets :: "string list"
  keys :: "string \<rightharpoonup> string"

text \<open>
  A relational statement is issued either on the transaction client \<open>tx\<close> that
  \<open>prisma.$transaction\<close> hands to its callback, or on the global client \<open>prisma\<close>.
\<close>

datatype conn = OnTx | OnClient

datatype store_call =
    TeamCount string
  | NamespaceCount string
  | NamespaceCreate conn
  | NamespaceDelete conn string
  | MetadataCreate conn string "TUFRepo option" TUFRole nat
  | ObjectUpsert conn string string
  | ObjectUpdate conn string string
  | ObjectFindUnique string string
  | BlobPut blob_loc
  | BlobGet blob_loc
  | BlobDelete blob_loc
  | CreateBucket string
  | DeleteBucket string
  | KeyPut string
  | KeyGet string
  | KeyDelete string

text \<open>
  Certificates and the PKCS#12 container, as far as the handlers build them: a
  certificate is either parsed from PEM text or issued by \<open>generateCertificate\<close>;
  a key object is identified with its PEM text.
\<close>

datatype certificate =
    FromPem string
  | SelfSigned key_pair
  | Issued string string certificate key_pair

record pkcs12 =
  p12_key :: string
  p12_chain :: "certificate list"
  p12_password :: "string option"

datatype archive_entry = UrlFile string | P12File pkcs12

datatype body =
    NoBody
  | Text string
  | Bytes bytes
  | NamespaceJson string int int
  | Archive "(string \<times> archive_entry) list"

text \<open>
  \<open>Responded status content_type body\<close> is a response the handler sent;
  \<open>Rejected\<close> is the handler's promise rejecting (an exception of a store call that
  the handler does not catch): the handler sends no response of its own.
\<close>

datatype response = Responded nat "string option" body | Rejected

type_synonym outcome = "response \<times> store_call list \<times> world"

section \<open>The declared size\<close>

text \<open>
  \<open>parseInt(req.get('content-length')!)\<close>. A JavaScript number is modelled as
  \<open>int option\<close>, \<open>None\<close> being NaN. \<open>parseInt\<close> follows the steps of the language
  definition: the argument is converted to a string (\<open>undefined\<close> for an absent header),
  leading white space is skipped, a sign is read, a \<open>0x\<close> prefix selects radix 16, and
  the longest prefix of digits is the value; no digit gives NaN.
\<close>

definition StrWhiteSpaceChar :: "char \<Rightarrow> bool" where
  "StrWhiteSpaceChar c =
     (c \<in> set [CHR 0x20, CHR 0x09, CHR 0x0A, CHR 0x0B, CHR 0x0C, CHR 0x0D, CHR 0xA0])"

definition digit_value :: "char \<Rightarrow> nat option" where
  "digit_value c =
     (let n = (of_char c :: nat) in
      if 48 \<le> n \<and> n \<le> 57 then Some (n - 48)
      else if 97 \<le> n \<and> n \<le> 122 then Some (n - 87)
      else if 65 \<le> n \<and> n \<le> 90 then Some (n - 55)
      else None)"

definition is_digit :: "nat \<Rightarrow> char \<Rightarrow> bool" where
  "is_digit R c = (case digit_value c of None \<Rightarrow> False | Some d \<Rightarrow> d < R)"

definition digits_value :: "nat \<Rightarrow> string \<Rightarrow> nat" where
  "digits_value R Z =
     foldl (\<lambda>n c. n * R + (case digit_value c of None \<Rightarrow> 0 | Some d \<Rightarrow> d)) 0 Z"

definition parseInt :: "string option \<Rightarrow> int option" where
  "parseInt input =
     (let inputString = (case input of None \<Rightarrow> ''undefined'' | Some s \<Rightarrow> s);
          S = dropWhile StrWhiteSpaceChar inputString;
          sign = (if take 1 S = ''-'' then - 1 else (1::int));
          S1 = (if take 1 S = ''+'' \<or> take 1 S = ''-'' then drop 1 S else S);
          hex = (take 2 S1 = ''0x'' \<or> take 2 S1 = ''0X'');
          R = (if hex then 16 else 10);
          S2 = (if hex then drop 2 S1 else S1);
          Z = takeWhile (is_digit R) S2
      in if Z = [] then None else Some (sign * int (digits_value R Z)))"

text \<open>\<open>!size\<close>, \<open>isNaN(size)\<close> and the check of both upload handlers.\<close>

definition falsy :: "int option \<Rightarrow> bool" where
  "falsy n = (n = None \<or> n = Some 0)"

definition isNaN :: "int option \<Rightarrow> bool" where
  "isNaN n = (n = None)"

definition size_rejected :: "int option \<Rightarrow> bool" where
  "size_rejected sz = (falsy sz \<or> sz = Some 0 \<or> isNaN sz)"

text \<open>The integer a number denotes when it is written to a row; NaN never gets there.\<close>

definition number_value :: "int option \<Rightarrow> int" where
  "number_value n = (case n of None \<Rightarrow> 0 | Some i \<Rightarrow> i)"

section \<open>Store operations\<close>

definition team_count :: "world \<Rightarrow> string \<Rightarrow> nat" where
  "team_count w t = length (filter (\<lambda>x. x = t) (teams w))"

definition namespace_count :: "world \<Rightarrow> string \<Rightarrow> nat" where
  "namespace_count w n = length (filter (\<lambda>r. ns_id r = n) (namespaces w))"

text \<open>
  \<open>object.findUnique\<close>, \<open>object.upsert\<close> with \<open>create\<close> and \<open>update\<close> as
  both upload handlers give them, on the compound key (tenant, object_id).
\<close>

definition has_key :: "string \<Rightarrow> string \<Rightarrow> object_row \<Rightarrow> bool" where
  "has_key t object_id row = (obj_tenant row = t \<and> obj_object_id row = object_id)"

definition findUnique :: "world \<Rightarrow> string \<Rightarrow> string \<Rightarrow> object_row option" where
  "findUnique w t object_id = find (has_key t object_id) (objects w)"

definition object_upsert :: "world \<Rightarrow> string \<Rightarrow> string \<Rightarrow> int \<Rightarrow> world" where
  "object_upsert w t object_id sz =
     (case findUnique w t object_id of
        None \<Rightarrow>
          w\<lparr>objects := objects w @
             [\<lparr>obj_tenant = t, obj_object_id = object_id, obj_size = sz, obj_status = uploading\<rparr>]\<rparr>
      | Some _ \<Rightarrow>
          w\<lparr>objects :=
              map (\<lambda>row. if has_key t object_id row
                         then row\<lparr>obj_size := sz, obj_status := uploading\<rparr> else row)
                (objects w)\<rparr>)"

text \<open>\<open>object.update\<close> of the status; updating a row that does not exist throws.\<close>

definition object_update :: "world \<Rightarrow> string \<Rightarrow> string \<Rightarrow> world option" where
  "object_update w t object_id =
     (case findUnique w t object_id of
        None \<Rightarrow> None
      | Some _ \<Rightarrow>
          Some (w\<lparr>objects :=
              map (\<lambda>row. if has_key t object_id row then row\<lparr>obj_status := uploaded\<rparr> else row)
                (objects w)\<rparr>))"

text \<open>
  \<open>blobStorage.putObject\<close>: the blob store is an external collaborator that may fail;
  \<open>put_ok\<close> says whether this write succeeds. A failed write throws.
\<close>

definition putObject :: "bool \<Rightarrow> world \<Rightarrow> blob_loc \<Rightarrow> bytes \<Rightarrow> world option" where
  "putObject put_ok w loc content =
     (if put_ok then Some (w\<lparr>blobs := (blobs w)(loc \<mapsto> content)\<rparr>) else None)"

text \<open>
  What \<open>blobStorage.getObject\<close> yields. The driver is not part of the sources, so the
  download handlers take it as a parameter: it may throw, resolve with nothing, or
  resolve with the content. \<open>stored\<close> is the driver that reads the blob map and throws
  on an absent blob.
\<close>

datatype fetched = Throws | Nothing | Content bytes

definition stored :: "world \<Rightarrow> blob_loc \<Rightarrow> fetched" where
  "stored w loc = (case blobs w loc of None \<Rightarrow> Throws | Some c \<Rightarrow> Content c)"

text \<open>
  \<open>prisma.$transaction(async tx => ...)\<close>: the callback's relational statements are
  committed when the callback returns and rolled back when it throws. Writes to the
  blob store and the key store made inside the callback are not part of the
  transaction and stay. \<open>Inl ()\<close> is a callback that threw.
\<close>

definition rollback :: "world \<Rightarrow> world \<Rightarrow> world" where
  "rollback w0 w =
     w\<lparr>teams := teams w0, namespaces := namespaces w0,
       metadata := metadata w0, objects := objects w0, images := images w0\<rparr>"

definition transaction ::
  "world \<Rightarrow> (world \<Rightarrow> (unit + 'a) \<times> store_call list \<times> world)
     \<Rightarrow> (unit + 'a) \<times> store_call list \<times> world" where
  "transaction w callback =
     (case callback w of
        (Inr r, cs, w') \<Rightarrow> (Inr r, cs, w')
      | (Inl e, cs, w') \<Rightarrow> (Inl e, cs, rollback w w'))"

section \<open>Object synchronisation, team snapshot\<close>

text \<open>\<open>router.post('/:team_id/objects/:prefix/:suffix')\<close>.\<close>

definition upload_team ::
  "bool \<Rightarrow> world \<Rightarrow> string \<Rightarrow> string \<Rightarrow> string \<Rightarrow> bytes \<Rightarrow> string option \<Rightarrow> outcome" where
  "upload_team put_ok w teamID prefix suffix content content_length =
     (let object_id = prefix @ suffix;
          sz = parseInt content_length
      in if size_rejected sz then (Responded 400 None NoBody, [], w)
      else if team_count w teamID = 0
        then (Responded 400 None (Text ''could not upload ostree object''), [TeamCount teamID], w)
      else
        (case transaction w (\<lambda>tx.
            let tx1 = object_upsert tx teamID object_id (number_value sz);
                loc = InBucket teamID (''treehub/'' @ prefix @ ''/'' @ suffix)
            in case putObject put_ok tx1 loc content of
                 None \<Rightarrow> (Inl (), [ObjectUpsert OnTx teamID object_id, BlobPut loc], tx1)
               | Some tx2 \<Rightarrow>
                   (case object_update tx2 teamID object_id of
                      None \<Rightarrow>
                        (Inl (), [ObjectUpsert OnTx teamID object_id, BlobPut loc,
                                  ObjectUpdate OnTx teamID object_id], tx2)
                    | Some tx3 \<Rightarrow>
                        (Inr (), [ObjectUpsert OnTx teamID object_id, BlobPut loc,
                                  ObjectUpdate OnTx teamID object_id], tx3)))
         of
           (Inl _, cs, w') \<Rightarrow> (Rejected, TeamCount teamID # cs, w')
         | (Inr _, cs, w') \<Rightarrow> (Responded 204 None NoBody, TeamCount teamID # cs, w')))"

text \<open>\<open>router.head('/:team_id/objects/:prefix/:suffix')\<close>.\<close>

definition exists_team :: "world \<Rightarrow> string \<Rightarrow> string \<Rightarrow> string \<Rightarrow> outcome" where
  "exists_team w teamID prefix suffix =
     (let object_id = prefix @ suffix;
          object = findUnique w teamID object_id
      in if object = None
         then (Responded 404 None NoBody, [ObjectFindUnique teamID object_id], w)
         else (Responded 200 None NoBody, [ObjectFindUnique teamID object_id], w))"

text \<open>
  \<open>router.get('/objects/:prefix/:suffix', mustBeRobot, ...)\<close>; \<open>team_id\<close> comes from
  the robot's gateway payload. The fetch is inside \<open>try\<close>: a fetch that throws is
  answered with 500, a fetch that resolves is sent, whatever it resolved with.
\<close>

definition download_team ::
  "(blob_loc \<Rightarrow> fetched) \<Rightarrow> world \<Rightarrow> string \<Rightarrow> string \<Rightarrow> string \<Rightarrow> outcome" where
  "download_team getObject w team_id prefix suffix =
     (let object_id = prefix @ suffix;
          object = findUnique w team_id object_id
      in if object = None
         then (Responded 404 None NoBody, [ObjectFindUnique team_id object_id], w)
         else
           (let loc = InBucket team_id (''treehub/'' @ prefix @ ''/'' @ suffix);
                cs = [ObjectFindUnique team_id object_id, BlobGet loc]
            in case getObject loc of
                 Throws \<Rightarrow> (Responded 500 None NoBody, cs, w)
               | Nothing \<Rightarrow> (Responded 200 (Some ''application/octet-stream'') NoBody, cs, w)
               | Content content \<Rightarrow>
                   (Responded 200 (Some ''application/octet-stream'') (Bytes content), cs, w)))"

section \<open>Object synchronisation, namespace snapshot\<close>

text \<open>
  \<open>router.put('/:namespace/objects/:prefix/:suffix')\<close>. The handler does not look the
  namespace up. The relational schema is not part of the sources; \<open>fk\<close> says whether
  the Object table's namespace column is a foreign key into the Namespace table, in
  which case the upsert for an unknown namespace throws.
\<close>

definition upload_ns ::
  "bool \<Rightarrow> bool \<Rightarrow> world \<Rightarrow> string \<Rightarrow> string \<Rightarrow> string \<Rightarrow> bytes \<Rightarrow> string option \<Rightarrow> outcome" where
  "upload_ns fk put_ok w namespace prefix suffix content content_length =
     (let sz = parseInt content_length
      in if size_rejected sz then (Responded 400 None NoBody, [], w)
      else
        (let object_id = prefix @ suffix;
             bucketId = namespace @ ''/'' @ prefix @ ''/'' @ suffix
         in case transaction w (\<lambda>tx.
              if fk \<and> namespace_count tx namespace = 0
              then (Inl (), [ObjectUpsert OnTx namespace object_id], tx)
              else
                (let tx1 = object_upsert tx namespace object_id (number_value sz)
                 in case putObject put_ok tx1 (Flat bucketId) content of
                      None \<Rightarrow>
                        (Inl (), [ObjectUpsert OnTx namespace object_id, BlobPut (Flat bucketId)], tx1)
                    | Some tx2 \<Rightarrow>
                        (case object_update tx2 namespace object_id of
                           None \<Rightarrow>
                             (Inl (), [ObjectUpsert OnTx namespace object_id, BlobPut (Flat bucketId),
                                       ObjectUpdate OnTx namespace object_id], tx2)
                         | Some tx3 \<Rightarrow>
                             (Inr (), [ObjectUpsert OnTx namespace object_id, BlobPut (Flat bucketId),
                                       ObjectUpdate OnTx namespace object_id], tx3))))
            of
              (Inl _, cs, w') \<Rightarrow> (Rejected, cs, w')
            | (Inr _, cs, w') \<Rightarrow> (Responded 200 None NoBody, cs, w')))"

text \<open>
  \<open>router.get('/:namespace/objects/:prefix/:suffix')\<close>. The fetch is not inside
  \<open>try\<close>: a fetch that throws rejects the handler; a fetch that resolves with nothing
  is answered with 500. The content is a buffer, which is never falsy.
\<close>

definition download_ns ::
  "(blob_loc \<Rightarrow> fetched) \<Rightarrow> world \<Rightarrow> string \<Rightarrow> string \<Rightarrow> string \<Rightarrow> outcome" where
  "download_ns getObject w namespace prefix suffix =
     (let object_id = prefix @ suffix;
          bucketId = namespace @ ''/'' @ prefix @ ''/'' @ suffix;
          object = findUnique w namespace object_id
      in if object = None
         then (Responded 404 None NoBody, [ObjectFindUnique namespace object_id], w)
         else
           (let cs = [ObjectFindUnique namespace object_id, BlobGet (Flat bucketId)]
            in case getObject (Flat bucketId) of
                 Throws \<Rightarrow> (Rejected, cs, w)
               | Nothing \<Rightarrow> (Responded 500 None NoBody, cs, w)
               | Content content \<Rightarrow>
                   (Responded 200 (Some ''application/octet-stream'') (Bytes content), cs, w)))"

section \<open>Namespace administration\<close>

record config =
  TUF_TTL_IMAGE_ROOT :: int
  TUF_TTL_DIRECTOR_ROOT :: int
  ROBOT_GATEWAY_HOSTNAME :: string

text \<open>
  The identifiers imported from \<open>core/consts\<close>. Their values are not part of the
  sources; they are module constants, the same for every request.
\<close>

record core_consts =
  RootCABucket :: string
  RootCACertObjId :: string
  RootCAPrivateKeyId :: string
  RootCAPublicKeyId :: string

text \<open>
  What a creation draws from its environment: the row the relational store returns
  for \<open>namespace.create({data: {}})\<close> (the store generates the id and the time
  stamps), the clock, the key pairs of \<open>generateKeyPair\<close>, and for the snapshot with
  a root CA the RSA pair and the PEM text of its self-signed certificate.
\<close>

record create_env =
  new_namespace :: namespace_row
  now :: int
  imageRootKey :: key_pair
  imageTargetsKey :: key_pair
  imageSnapshotKey :: key_pair
  imageTimestampKey :: key_pair
  directorRootKey :: key_pair
  directorTargetsKey :: key_pair
  directorSnapshotKey :: key_pair
  directorTimestampKey :: key_pair
  rootCaKeyPair :: key_pair
  rootCertPem :: string

text \<open>
  Modelled from the spec: \<open>generateRoot\<close> of \<open>core/tuf\<close>, which is not among the
  sources. The spec gives it as a pure function of the TTL, the version and the four
  key pairs, building an expiry time stamp from the TTL, the version, one key entry
  per role and a mapping from each role to its key ids with threshold 1; the document
  is not signed. A key id is identified with the public key it is derived from.
\<close>

definition generateRoot ::
  "int \<Rightarrow> int \<Rightarrow> nat \<Rightarrow> key_pair \<Rightarrow> key_pair \<Rightarrow> key_pair \<Rightarrow> key_pair \<Rightarrow> root_doc" where
  "generateRoot clock ttl version rootKey targetsKey snapshotKey timestampKey =
     \<lparr>signed_expires = clock + ttl,
      signed_version = version,
      signed_keys = [publicKey rootKey, publicKey targetsKey,
                     publicKey snapshotKey, publicKey timestampKey],
      signed_roles = [(TUFRole_root, [publicKey rootKey], 1),
                      (TUFRole_targets, [publicKey targetsKey], 1),
                      (TUFRole_snapshot, [publicKey snapshotKey], 1),
                      (TUFRole_timestamp, [publicKey timestampKey], 1)]\<rparr>"

text \<open>
  Modelled from the spec: \<open>generateCertificate\<close> of \<open>core/crypto\<close>, which is not
  among the sources. Without options the certificate is self-signed with no parent;
  with options (common name, parent certificate, parent key pair) it is a leaf for the
  given key pair, signed with the parent's key and chained to the parent certificate.
\<close>

record cert_opts =
  commonName :: string
  cert :: certificate
  keyPair :: key_pair

definition generateCertificate :: "key_pair \<Rightarrow> cert_opts option \<Rightarrow> certificate" where
  "generateCertificate subject opts =
     (case opts of
        None \<Rightarrow> SelfSigned subject
      | Some opts \<Rightarrow> Issued (commonName opts) (publicKey subject) (cert opts) (keyPair opts))"

definition putKeys :: "world \<Rightarrow> (string \<times> string) list \<Rightarrow> world" where
  "putKeys w kvs = foldl (\<lambda>w (k, v). w\<lparr>keys := (keys w)(k \<mapsto> v)\<rparr>) w kvs"

definition deleteKeys :: "world \<Rightarrow> string list \<Rightarrow> world" where
  "deleteKeys w ks = foldl (\<lambda>w k. w\<lparr>keys := (keys w)(k := None)\<rparr>) w ks"

definition createBucket :: "world \<Rightarrow> string \<Rightarrow> world" where
  "createBucket w b = w\<lparr>buckets := buckets w @ [b]\<rparr>"

definition deleteBucket :: "world \<Rightarrow> string \<Rightarrow> world" where
  "deleteBucket w b =
     w\<lparr>buckets := filter (\<lambda>x. x \<noteq> b) (buckets w),
       blobs := (\<lambda>loc. case loc of
                   InBucket b' k \<Rightarrow> if b' = b then None else blobs w loc
                 | Flat k \<Rightarrow> blobs w loc)\<rparr>"

definition deleteObjects :: "world \<Rightarrow> blob_loc list \<Rightarrow> world" where
  "deleteObjects w locs = foldl (\<lambda>w loc. w\<lparr>blobs := (blobs w)(loc := None)\<rparr>) w locs"

text \<open>
  \<open>namespace.delete\<close>; the handlers rely on the relational store to cascade the
  deletion to the rows that refer to the namespace.
\<close>

definition namespace_delete :: "world \<Rightarrow> string \<Rightarrow> world" where
  "namespace_delete w n =
     w\<lparr>namespaces := filter (\<lambda>r. ns_id r \<noteq> n) (namespaces w),
       metadata := filter (\<lambda>m. md_namespace_id m \<noteq> n) (metadata w),
       objects := filter (\<lambda>r. obj_tenant r \<noteq> n) (objects w),
       images := filter (\<lambda>(i, n'). n' \<noteq> n) (images w)\<rparr>"

definition metadata_create :: "world \<Rightarrow> metadata_row \<Rightarrow> world" where
  "metadata_create w m = w\<lparr>metadata := metadata w @ [m]\<rparr>"

definition namespace_create :: "world \<Rightarrow> namespace_row \<Rightarrow> world" where
  "namespace_create w r = w\<lparr>namespaces := namespaces w @ [r]\<rparr>"

subsection \<open>\<open>src/modules/admin/index.ts\<close>\<close>

text \<open>The sixteen \<open>keyStorage.putKey\<close> calls of the creation, in order.\<close>

definition created_keys :: "create_env \<Rightarrow> string \<Rightarrow> (string \<times> string) list" where
  "created_keys env n =
     [(n @ ''-image-root-private'', privateKey (imageRootKey env)),
      (n @ ''-image-targets-private'', privateKey (imageTargetsKey env)),
      (n @ ''-image-snapshot-private'', privateKey (imageSnapshotKey env)),
      (n @ ''-image-timestamp-private'', privateKey (imageTimestampKey env)),
      (n @ ''-image-root-public'', publicKey (imageRootKey env)),
      (n @ ''-image-targets-public'', publicKey (imageTargetsKey env)),
      (n @ ''-image-snapshot-public'', publicKey (imageSnapshotKey env)),
      (n @ ''-image-timestamp-public'', publicKey (imageTimestampKey env)),
      (n @ ''-director-root-private'', privateKey (directorRootKey env)),
      (n @ ''-director-targets-private'', privateKey (directorTargetsKey env)),
      (n @ ''-director-snapshot-private'', privateKey (directorSnapshotKey env)),
      (n @ ''-director-timestamp-private'', privateKey (directorTimestampKey env)),
      (n @ ''-director-root-public'', publicKey (directorRootKey env)),
      (n @ ''-director-targets-public'', publicKey (directorTargetsKey env)),
      (n @ ''-director-snapshot-public'', publicKey (directorSnapshotKey env)),
      (n @ ''-director-timestamp-public'', publicKey (directorTimestampKey env))]"

text \<open>\<open>router.post('/namespaces')\<close>.\<close>

definition create_namespace :: "config \<Rightarrow> create_env \<Rightarrow> world \<Rightarrow> outcome" where
  "create_namespace cfg env w =
     (let version = 1;
          directorRepoRoot = generateRoot (now env) (TUF_TTL_DIRECTOR_ROOT cfg) version
            (directorRootKey env) (directorTargetsKey env)
            (directorSnapshotKey env) (directorTimestampKey env);
          imageRepoRoot = generateRoot (now env) (TUF_TTL_IMAGE_ROOT cfg) version
            (imageRootKey env) (imageTargetsKey env)
            (imageSnapshotKey env) (imageTimestampKey env)
      in case transaction w (\<lambda>tx.
           let namespace = new_namespace env;
               tx1 = namespace_create tx namespace;
               tx2 = metadata_create tx1
                 \<lparr>md_namespace_id = ns_id namespace, md_repo = Some TUFRepo_image,
                  md_role = TUFRole_root, md_version = version, md_value = imageRepoRoot,
                  md_expires_at = Some (signed_expires imageRepoRoot)\<rparr>;
               tx3 = metadata_create tx2
                 \<lparr>md_namespace_id = ns_id namespace, md_repo = Some TUFRepo_director,
                  md_role = TUFRole_root, md_version = version, md_value = directorRepoRoot,
                  md_expires_at = Some (signed_expires directorRepoRoot)\<rparr>;
               tx4 = createBucket tx3 (ns_id namespace);
               tx5 = putKeys tx4 (created_keys env (ns_id namespace))
           in (Inr namespace,
               [NamespaceCreate OnTx,
                MetadataCreate OnTx (ns_id namespace) (Some TUFRepo_image) TUFRole_root version,
                MetadataCreate OnTx (ns_id namespace) (Some TUFRepo_director) TUFRole_root version,
                CreateBucket (ns_id namespace)]
               @ map (\<lambda>(k, v). KeyPut k) (created_keys env (ns_id namespace)),
               tx5))
         of
           (Inl _, cs, w') \<Rightarrow> (Rejected, cs, w')
         | (Inr namespace, cs, w') \<Rightarrow>
             (Responded 200 None
                (NamespaceJson (ns_id namespace) (ns_created_at namespace) (ns_updated_at namespace)),
              cs, w'))"

text \<open>The sixteen \<open>keyStorage.deleteKey\<close> calls of the deletion, in order.\<close>

definition deleted_keys :: "string \<Rightarrow> string list" where
  "deleted_keys n =
     [n @ ''-image-root-private'', n @ ''-image-targets-private'',
      n @ ''-image-snapshot-private'', n @ ''-image-timestamp-private'',
      n @ ''-image-root-public'', n @ ''-image-targets-public'',
      n @ ''-image-snapshot-public'', n @ ''-image-timestamp-public'',
      n @ ''-director-root-private'', n @ ''-director-targets-private'',
      n @ ''-director-snapshot-private'', n @ ''-director-timestamp-private'',
      n @ ''-director-root-public'', n @ ''-director-targets-public'',
      n @ ''-director-snapshot-public'', n @ ''-director-timestamp-public'']"

text \<open>\<open>router.delete('/namespaces/:namespace')\<close>.\<close>

definition delete_namespace :: "world \<Rightarrow> string \<Rightarrow> outcome" where
  "delete_namespace w namespace =
     (if namespace_count w namespace = 0
      then (Responded 400 None (Text ''could not delete namespace''),
            [NamespaceCount namespace], w)
      else
        (case transaction w (\<lambda>tx.
            let tx1 = namespace_delete tx namespace;
                tx2 = deleteBucket tx1 namespace;
                tx3 = deleteKeys tx2 (deleted_keys namespace)
            in (Inr (),
                [NamespaceDelete OnTx namespace, DeleteBucket namespace]
                @ map KeyDelete (deleted_keys namespace),
                tx3))
         of
           (Inl _, cs, w') \<Rightarrow> (Rejected, NamespaceCount namespace # cs, w')
         | (Inr _, cs, w') \<Rightarrow>
             (Responded 200 None (Text ''namespace deleted''), NamespaceCount namespace # cs, w')))"

text \<open>
  \<open>router.get('/namespaces/:namespace/provisioning-credentials')\<close>. The fresh RSA
  pair and the UUID are inputs, and so is \<open>generateCertificate\<close> (as
  \<open>generateCert\<close>), which is not among the sources. \<open>keyStorage.getKey\<close> reads the
  key map; an absent key or certificate makes the PEM parser throw, which rejects the
  handler after the three loads were issued.
\<close>

definition provisioning_credentials ::
  "(key_pair \<Rightarrow> cert_opts option \<Rightarrow> certificate) \<Rightarrow> config \<Rightarrow> core_consts
     \<Rightarrow> (blob_loc \<Rightarrow> fetched) \<Rightarrow> key_pair \<Rightarrow> string \<Rightarrow> world \<Rightarrow> string \<Rightarrow> outcome" where
  "provisioning_credentials generateCert cfg cs getObject provisioningKeyPair uuid w namespace =
     (if namespace_count w namespace = 0
      then (Responded 400 None (Text ''could not create provisioning key''),
            [NamespaceCount namespace], w)
      else
        (let rootCaPrivateKeyStr = keys w (RootCAPrivateKeyId cs);
             rootCaPublicKeyStr = keys w (RootCAPublicKeyId cs);
             rootCaCertStr = getObject (InBucket (RootCABucket cs) (RootCACertObjId cs));
             calls = [NamespaceCount namespace,
                      KeyGet (RootCAPrivateKeyId cs), KeyGet (RootCAPublicKeyId cs),
                      BlobGet (InBucket (RootCABucket cs) (RootCACertObjId cs))]
         in case (rootCaCertStr, rootCaPrivateKeyStr, rootCaPublicKeyStr) of
              (Content pem, Some priv, Some pub) \<Rightarrow>
                (let rootCaCert = FromPem pem;
                     opts = \<lparr>commonName = uuid, cert = rootCaCert,
                             keyPair = \<lparr>publicKey = pub, privateKey = priv\<rparr>\<rparr>;
                     provisioningCert = generateCert provisioningKeyPair (Some opts);
                     p12 = \<lparr>p12_key = privateKey provisioningKeyPair,
                            p12_chain = [provisioningCert, rootCaCert],
                            p12_password = None\<rparr>
                 in (Responded 200 None
                       (Archive
                          [(''autoprov.url'',
                            UrlFile (ROBOT_GATEWAY_HOSTNAME cfg @ ''/api/v0/director/'' @ namespace)),
                           (''autoprov_credentials.p12'', P12File p12)]),
                     calls, w))
            | _ \<Rightarrow> (Rejected, calls, w)))"

subsection \<open>The admin snapshot with a root CA per namespace\<close>

definition created_keys_rootca :: "create_env \<Rightarrow> string \<Rightarrow> (string \<times> string) list" where
  "created_keys_rootca env n =
     [(n @ ''-rootca-private'', privateKey (rootCaKeyPair env)),
      (n @ ''-rootca-public'', publicKey (rootCaKeyPair env))]
     @ created_keys env n"

definition create_namespace_rootca :: "config \<Rightarrow> create_env \<Rightarrow> world \<Rightarrow> outcome" where
  "create_namespace_rootca cfg env w =
     (let version = 1;
          directorRepoRoot = generateRoot (now env) (TUF_TTL_DIRECTOR_ROOT cfg) version
            (directorRootKey env) (directorTargetsKey env)
            (directorSnapshotKey env) (directorTimestampKey env);
          imageRepoRoot = generateRoot (now env) (TUF_TTL_IMAGE_ROOT cfg) version
            (imageRootKey env) (imageTargetsKey env)
            (imageSnapshotKey env) (imageTimestampKey env)
      in case transaction w (\<lambda>tx.
           let namespace = new_namespace env;
               tx1 = namespace_create tx namespace;
               tx2 = metadata_create tx1
                 \<lparr>md_namespace_id = ns_id namespace, md_repo = Some TUFRepo_image,
                  md_role = TUFRole_root, md_version = version, md_value = imageRepoRoot,
                  md_expires_at = Some (signed_expires imageRepoRoot)\<rparr>;
               tx3 = metadata_create tx2
                 \<lparr>md_namespace_id = ns_id namespace, md_repo = Some TUFRepo_director,
                  md_role = TUFRole_root, md_version = version, md_value = directorRepoRoot,
                  md_expires_at = Some (signed_expires directorRepoRoot)\<rparr>;
               tx4 = createBucket tx3 (ns_id namespace);
               tx5 = tx4\<lparr>blobs := (blobs tx4)(InBucket (ns_id namespace) ''rootca'' \<mapsto> rootCertPem env)\<rparr>;
               tx6 = putKeys tx5 (created_keys_rootca env (ns_id namespace))
           in (Inr namespace,
               [NamespaceCreate OnTx,
                MetadataCreate OnTx (ns_id namespace) (Some TUFRepo_image) TUFRole_root version,
                MetadataCreate OnTx (ns_id namespace) (Some TUFRepo_director) TUFRole_root version,
                CreateBucket (ns_id namespace),
                BlobPut (InBucket (ns_id namespace) ''rootca'')]
               @ map (\<lambda>(k, v). KeyPut k) (created_keys_rootca env (ns_id namespace)),
               tx6))
         of
           (Inl _, cs, w') \<Rightarrow> (Rejected, cs, w')
         | (Inr namespace, cs, w') \<Rightarrow>
             (Responded 200 None
                (NamespaceJson (ns_id namespace) (ns_created_at namespace) (ns_updated_at namespace)),
              cs, w'))"

definition deleted_keys_rootca :: "string \<Rightarrow> string list" where
  "deleted_keys_rootca n =
     [n @ ''-rootca-private'', n @ ''-rootca-public''] @ deleted_keys n"

definition delete_namespace_rootca :: "world \<Rightarrow> string \<Rightarrow> outcome" where
  "delete_namespace_rootca w namespace =
     (if namespace_count w namespace = 0
      then (Responded 400 None (Text ''could not delete namespace''),
            [NamespaceCount namespace], w)
      else
        (case transaction w (\<lambda>tx.
            let tx1 = namespace_delete tx namespace;
                tx2 = deleteBucket tx1 namespace;
                tx3 = deleteKeys tx2 (deleted_keys_rootca namespace)
            in (Inr (),
                [NamespaceDelete OnTx namespace, DeleteBucket namespace]
                @ map KeyDelete (deleted_keys_rootca namespace),
                tx3))
         of
           (Inl _, cs, w') \<Rightarrow> (Rejected, NamespaceCount namespace # cs, w')
         | (Inr _, cs, w') \<Rightarrow>
             (Responded 200 None (Text ''namespace deleted''), NamespaceCount namespace # cs, w')))"

subsection \<open>The admin snapshot with a single metadata row\<close>

text \<open>
  Eight private keys are stored, under identifiers without a use suffix. The metadata
  row has a \<open>type\<close> and no repository kind or expiry, and is created on the global
  client \<open>prisma\<close>, not on \<open>tx\<close>; so is the deletion of the namespace row.

  A Metadata row refers to its namespace by foreign key (the data model lets the
  namespace own its metadata by foreign reference, and the deletion relies on the
  cascade). The global client reads the committed rows only, and the namespace row that
  \<open>tx.namespace.create\<close> has just made is not committed before the callback
  returns. So \<open>prisma.metadata.create\<close> throws unless a committed namespace row
  already has that id; the callback throws with it and the transaction is rolled back.
  Where it does not throw, its row is written at once; nothing after it fails, so the
  world at the end is the same as if it had been written on \<open>tx\<close>.
\<close>

definition created_keys_single :: "create_env \<Rightarrow> string \<Rightarrow> (string \<times> string) list" where
  "created_keys_single env n =
     [(n @ ''-image-root'', privateKey (imageRootKey env)),
      (n @ ''-image-targets'', privateKey (imageTargetsKey env)),
      (n @ ''-image-snapshot'', privateKey (imageSnapshotKey env)),
      (n @ ''-image-timestamp'', privateKey (imageTimestampKey env)),
      (n @ ''-director-root'', privateKey (directorRootKey env)),
      (n @ ''-director-targets'', privateKey (directorTargetsKey env)),
      (n @ ''-director-snapshot'', privateKey (directorSnapshotKey env)),
      (n @ ''-director-timestamp'', privateKey (directorTimestampKey env))]"

definition create_namespace_single :: "config \<Rightarrow> create_env \<Rightarrow> world \<Rightarrow> outcome" where
  "create_namespace_single cfg env w =
     (let version = 1;
          val = generateRoot (now env) (TUF_TTL_IMAGE_ROOT cfg) version
            (imageRootKey env) (imageTargetsKey env)
            (imageSnapshotKey env) (imageTimestampKey env)
      in case transaction w (\<lambda>tx.
           let namespace = new_namespace env;
               tx1 = namespace_create tx namespace
           in if namespace_count w (ns_id namespace) = 0
              then (Inl (),
                    [NamespaceCreate OnTx,
                     MetadataCreate OnClient (ns_id namespace) None TUFRole_root version],
                    tx1)
              else
                (let tx2 = metadata_create tx1
                       \<lparr>md_namespace_id = ns_id namespace, md_repo = None,
                        md_role = TUFRole_root, md_version = version, md_value = val,
                        md_expires_at = None\<rparr>;
                     tx3 = putKeys tx2 (created_keys_single env (ns_id namespace))
                 in (Inr namespace,
                     [NamespaceCreate OnTx,
                      MetadataCreate OnClient (ns_id namespace) None TUFRole_root version]
                     @ map (\<lambda>(k, v). KeyPut k) (created_keys_single env (ns_id namespace)),
                     tx3)))
         of
           (Inl _, cs, w') \<Rightarrow> (Rejected, cs, w')
         | (Inr namespace, cs, w') \<Rightarrow>
             (Responded 200 None
                (NamespaceJson (ns_id namespace) (ns_created_at namespace) (ns_updated_at namespace)),
              cs, w'))"

definition deleted_keys_single :: "string \<Rightarrow> string list" where
  "deleted_keys_single n =
     [n @ ''-image-root'', n @ ''-image-targets'', n @ ''-image-snapshot'',
      n @ ''-image-timestamp'', n @ ''-director-root'', n @ ''-director-targets'',
      n @ ''-director-snapshot'', n @ ''-director-timestamp'']"

text \<open>
  The storage key the deletion derives for an object row: the identifier
  \<open>summary\<close> lies directly under the namespace, any other identifier is split after
  its first two characters.
\<close>

definition treehubBucketId :: "object_row \<Rightarrow> string" where
  "treehubBucketId object =
     (if obj_object_id object = ''summary''
      then obj_tenant object @ ''/'' @ obj_object_id object
      else obj_tenant object @ ''/'' @ take 2 (obj_object_id object)
             @ ''/'' @ drop 2 (obj_object_id object))"

definition delete_namespace_single :: "world \<Rightarrow> string \<Rightarrow> outcome" where
  "delete_namespace_single w namespace =
     (if namespace_count w namespace = 0
      then (Responded 400 None (Text ''could not delete namespace''),
            [NamespaceCount namespace], w)
      else
        (case transaction w (\<lambda>tx.
            let namespaceObj_objects = filter (\<lambda>r. obj_tenant r = namespace) (objects tx);
                namespaceObj_images = filter (\<lambda>(i, n). n = namespace) (images tx);
                tx1 = namespace_delete tx namespace;
                treehubBucketIds = map treehubBucketId namespaceObj_objects;
                tx2 = deleteObjects tx1 (map Flat treehubBucketIds);
                imageBucketIds = map fst namespaceObj_images;
                tx3 = deleteObjects tx2 (map Flat imageBucketIds);
                tx4 = deleteKeys tx3 (deleted_keys_single namespace)
            in (Inr (),
                [NamespaceDelete OnClient namespace]
                @ map (\<lambda>b. BlobDelete (Flat b)) treehubBucketIds
                @ map (\<lambda>b. BlobDelete (Flat b)) imageBucketIds
                @ map KeyDelete (deleted_keys_single namespace),
                tx4))
         of
           (Inl _, cs, w') \<Rightarrow> (Rejected, NamespaceCount namespace # cs, w')
         | (Inr _, cs, w') \<Rightarrow>
             (Responded 200 None (Text ''namespace deleted''), NamespaceCount namespace # cs, w')))"

section \<open>Reading a trace\<close>

definition is_blob_call :: "store_call \<Rightarrow> bool" where
  "is_blob_call c =
     (case c of BlobPut _ \<Rightarrow> True | BlobGet _ \<Rightarrow> True | BlobDelete _ \<Rightarrow> True
      | CreateBucket _ \<Rightarrow> True | DeleteBucket _ \<Rightarrow> True | _ \<Rightarrow> False)"

definition is_key_call :: "store_call \<Rightarrow> bool" where
  "is_key_call c =
     (case c of KeyPut _ \<Rightarrow> True | KeyGet _ \<Rightarrow> True | KeyDelete _ \<Rightarrow> True | _ \<Rightarrow> False)"

definition key_puts :: "store_call list \<Rightarrow> string list" where
  "key_puts cs = concat (map (\<lambda>c. case c of KeyPut k \<Rightarrow> [k] | _ \<Rightarrow> []) cs)"

definition key_deletes :: "store_call list \<Rightarrow> string list" where
  "key_deletes cs = concat (map (\<lambda>c. case c of KeyDelete k \<Rightarrow> [k] | _ \<Rightarrow> []) cs)"

definition key_gets :: "store_call list \<Rightarrow> string list" where
  "key_gets cs = concat (map (\<lambda>c. case c of KeyGet k \<Rightarrow> [k] | _ \<Rightarrow> []) cs)"

text \<open>The blob locations and the object-row keys a call reads or writes.\<close>

definition blob_locs :: "store_call list \<Rightarrow> blob_loc list" where
  "blob_locs cs =
     concat (map (\<lambda>c. case c of BlobPut l \<Rightarrow> [l] | BlobGet l \<Rightarrow> [l] | BlobDelete l \<Rightarrow> [l]
                        | _ \<Rightarrow> []) cs)"



definition relational_calls :: "store_call list \<Rightarrow> store_call list" where
  "relational_calls cs = filter (\<lambda>c. \<not> is_blob_call c \<and> \<not> is_key_call c) cs"

definition md_summary :: "metadata_row \<Rightarrow> string \<times> TUFRepo option \<times> TUFRole \<times> nat" where
  "md_summary m = (md_namespace_id m, md_repo m, md_role m, md_version m)"




section \<open>Key identifiers in the spec's words\<close>

text \<open>
  The spec gives the identifier of a key record as
  \<open>{namespace_id}-{repo}-{role}-{private|public}\<close>, over the fixed enumeration of
  two repository kinds, four roles and two uses. \<open>spec_key_ids\<close> follows these words;
  it is compared below with the identifiers the handlers write and delete.
\<close>

datatype key_use = use_private | use_public

definition repo_name :: "TUFRepo \<Rightarrow> string" where
  "repo_name r = (case r of TUFRepo_image \<Rightarrow> ''image'' | TUFRepo_director \<Rightarrow> ''director'')"

definition role_name :: "TUFRole \<Rightarrow> string" where
  "role_name r =
     (case r of TUFRole_root \<Rightarrow> ''root'' | TUFRole_targets \<Rightarrow> ''targets''
      | TUFRole_snapshot \<Rightarrow> ''snapshot'' | TUFRole_timestamp \<Rightarrow> ''timestamp'')"

definition use_name :: "key_use \<Rightarrow> string" where
  "use_name u = (case u of use_private \<Rightarrow> ''private'' | use_public \<Rightarrow> ''public'')"

definition spec_key_id :: "string \<Rightarrow> TUFRepo \<Rightarrow> TUFRole \<Rightarrow> key_use \<Rightarrow> string" where
  "spec_key_id n repo role use =
     n @ ''-'' @ repo_name repo @ ''-'' @ role_name role @ ''-'' @ use_name use"

definition spec_key_ids :: "string \<Rightarrow> string list" where
  "spec_key_ids n =
     concat (map (\<lambda>repo. concat (map (\<lambda>use. map (\<lambda>role. spec_key_id n repo role use)
         [TUFRole_root, TUFRole_targets, TUFRole_snapshot, TUFRole_timestamp])
       [use_private, use_public]))
     [TUFRepo_image, TUFRepo_director])"

section \<open>Concrete worlds\<close>

definition demo_world :: world where
  "demo_world =
     \<lparr>teams = [''team-1''],
      namespaces = [\<lparr>ns_id = ''ns-1'', ns_created_at = 10, ns_updated_at = 10\<rparr>],
      metadata = [],
      objects = [],
      images = [],
      blobs = Map.empty,
      buckets = [],
      keys = Map.empty\<rparr>"

definition demo_rows :: world where
  "demo_rows =
     demo_world\<lparr>objects :=
       [\<lparr>obj_tenant = ''team-1'', obj_object_id = ''abcdef'', obj_size = 4, obj_status = uploading\<rparr>,
        \<lparr>obj_tenant = ''ns-1'', obj_object_id = ''abcdef'', obj_size = 4, obj_status = uploaded\<rparr>]\<rparr>"

definition demo_cfg :: config where
  "demo_cfg =
     \<lparr>TUF_TTL_IMAGE_ROOT = 365, TUF_TTL_DIRECTOR_ROOT = 365,
      ROBOT_GATEWAY_HOSTNAME = ''https://gateway.example''\<rparr>"

definition demo_env :: create_env where
  "demo_env =
     \<lparr>new_namespace = \<lparr>ns_id = ''ns-2'', ns_created_at = 20, ns_updated_at = 20\<rparr>,
      now = 20,
      imageRootKey = \<lparr>publicKey = ''ir-pub'', privateKey = ''ir-priv''\<rparr>,
      imageTargetsKey = \<lparr>publicKey = ''it-pub'', privateKey = ''it-priv''\<rparr>,
      imageSnapshotKey = \<lparr>publicKey = ''is-pub'', privateKey = ''is-priv''\<rparr>,
      imageTimestampKey = \<lparr>publicKey = ''im-pub'', privateKey = ''im-priv''\<rparr>,
      directorRootKey = \<lparr>publicKey = ''dr-pub'', privateKey = ''dr-priv''\<rparr>,
      directorTargetsKey = \<lparr>publicKey = ''dt-pub'', privateKey = ''dt-priv''\<rparr>,
      directorSnapshotKey = \<lparr>publicKey = ''ds-pub'', privateKey = ''ds-priv''\<rparr>,
      directorTimestampKey = \<lparr>publicKey = ''dm-pub'', privateKey = ''dm-priv''\<rparr>,
      rootCaKeyPair = \<lparr>publicKey = ''ca-pub'', privateKey = ''ca-priv''\<rparr>,
      rootCertPem = ''ca-cert''\<rparr>"

definition demo_consts :: core_consts where
  "demo_consts =
     \<lparr>RootCABucket = ''root-ca'', RootCACertObjId = ''cert'',
      RootCAPrivateKeyId = ''root-ca-private'', RootCAPublicKeyId = ''root-ca-public''\<rparr>"

text \<open>
  Two namespaces; the key store and the blob store hold a root CA under the fixed
  identifiers and another one under identifiers made from the id of \<open>ns-1\<close>.
\<close>

definition ca_world :: world where
  "ca_world =
     \<lparr>teams = [],
      namespaces = [\<lparr>ns_id = ''ns-1'', ns_created_at = 10, ns_updated_at = 10\<rparr>,
                    \<lparr>ns_id = ''ns-2'', ns_created_at = 20, ns_updated_at = 20\<rparr>],
      metadata = [],
      objects = [],
      images = [],
      blobs = [InBucket ''root-ca'' ''cert'' \<mapsto> ''fixed-cert'',
               InBucket ''ns-1'' ''rootca'' \<mapsto> ''ns-1-cert''],
      buckets = [''root-ca'', ''ns-1''],
      keys = [''root-ca-private'' \<mapsto> ''fixed-priv'', ''root-ca-public'' \<mapsto> ''fixed-pub'',
              ''ns-1-rootca-private'' \<mapsto> ''ns-1-priv'', ''ns-1-rootca-public'' \<mapsto> ''ns-1-pub'']\<rparr>"


definition leaf_pair :: key_pair where
  "leaf_pair = \<lparr>publicKey = ''leaf-pub'', privateKey = ''leaf-priv''\<rparr>"

section \<open>Auxiliary facts\<close>

lemma parseInt_absent: "parseInt None = None"
  by (simp add: parseInt_def StrWhiteSpaceChar_def is_digit_def digit_value_def)

lemma size_rejected_iff: "size_rejected sz = (sz = None \<or> sz = Some 0)"
  by (auto simp: size_rejected_def falsy_def isNaN_def)

lemma parseInt_4: "parseInt (Some ''4'') = Some 4"
  by (simp add: parseInt_def StrWhiteSpaceChar_def is_digit_def digit_value_def digits_value_def)

lemma rollback_upsert: "rollback w (object_upsert w t i sz) = w"
  by (simp add: object_upsert_def rollback_def split: option.splits)

lemma rollback_namespace_create: "rollback w (namespace_create w r) = w"
  by (simp add: namespace_create_def rollback_def)

lemma findUnique_None_iff:
  "(findUnique w t i = None)
     = ((t, i) \<notin> set (map (\<lambda>r. (obj_tenant r, obj_object_id r)) (objects w)))"
  by (auto simp: findUnique_def find_None_iff has_key_def)

lemma relational_calls_Cons:
  "relational_calls (c # cs) =
     (if \<not> is_blob_call c \<and> \<not> is_key_call c then c # relational_calls cs
      else relational_calls cs)"
  "relational_calls [] = []"
  by (simp_all add: relational_calls_def)

lemma relational_calls_KeyPut: "relational_calls (map (\<lambda>(k, v). KeyPut k) kvs) = []"
  by (induction kvs) (auto simp: relational_calls_def is_key_call_def)

lemma key_puts_Cons:
  "key_puts (c # cs) = (case c of KeyPut k \<Rightarrow> [k] | _ \<Rightarrow> []) @ key_puts cs"
  "key_puts [] = []"
  by (simp_all add: key_puts_def)

lemma key_puts_map: "key_puts (map (\<lambda>(k, v). KeyPut k) kvs) = map fst kvs"
  by (induction kvs) (auto simp: key_puts_def)

lemma key_deletes_Cons:
  "key_deletes (c # cs) = (case c of KeyDelete k \<Rightarrow> [k] | _ \<Rightarrow> []) @ key_deletes cs"
  "key_deletes [] = []"
  by (simp_all add: key_deletes_def)

lemma key_deletes_append: "key_deletes (xs @ ys) = key_deletes xs @ key_deletes ys"
  by (simp add: key_deletes_def)

lemma key_deletes_map: "key_deletes (map KeyDelete ks) = ks"
  by (induction ks) (auto simp: key_deletes_def)

lemma key_deletes_BlobDelete:
  "key_deletes (map ((\<lambda>b. BlobDelete (Flat b)) \<circ> f) bs) = []"
  by (induction bs) (auto simp: key_deletes_def)

lemma key_gets_Cons:
  "key_gets (c # cs) = (case c of KeyGet k \<Rightarrow> [k] | _ \<Rightarrow> []) @ key_gets cs"
  "key_gets [] = []"
  by (simp_all add: key_gets_def)

lemma key_gets_KeyDelete: "key_gets (map KeyDelete ks) = []"
  by (induction ks) (auto simp: key_gets_def)

lemma blob_locs_Cons:
  "blob_locs (c # cs) =
     (case c of BlobPut l \<Rightarrow> [l] | BlobGet l \<Rightarrow> [l] | BlobDelete l \<Rightarrow> [l] | _ \<Rightarrow> [])
     @ blob_locs cs"
  "blob_locs [] = []"
  by (simp_all add: blob_locs_def)


lemma metadata_putKeys: "metadata (putKeys w kvs) = metadata w"
  unfolding putKeys_def by (induction kvs arbitrary: w) auto

lemma namespaces_putKeys: "namespaces (putKeys w kvs) = namespaces w"
  unfolding putKeys_def by (induction kvs arbitrary: w) auto

lemma keys_deleteKeys: "keys (deleteKeys w ks) k = (if k \<in> set ks then None else keys w k)"
  unfolding deleteKeys_def by (induction ks arbitrary: w) auto

subsection \<open>The store calls of the object handlers\<close>

lemma upload_ns_trace:
  "fst (snd (upload_ns fk put_ok w n p s c cl)) =
     (if size_rejected (parseInt cl) then []
      else if fk \<and> namespace_count w n = 0 then [ObjectUpsert OnTx n (p @ s)]
      else if \<not> put_ok
        then [ObjectUpsert OnTx n (p @ s), BlobPut (Flat (n @ ''/'' @ p @ ''/'' @ s))]
      else [ObjectUpsert OnTx n (p @ s), BlobPut (Flat (n @ ''/'' @ p @ ''/'' @ s)),
            ObjectUpdate OnTx n (p @ s)])"
  by (simp add: upload_ns_def Let_def transaction_def putObject_def split: option.splits)

lemma upload_team_trace:
  "fst (snd (upload_team put_ok w n p s c cl)) =
     (if size_rejected (parseInt cl) then []
      else if team_count w n = 0 then [TeamCount n]
      else if \<not> put_ok
        then [TeamCount n, ObjectUpsert OnTx n (p @ s),
              BlobPut (InBucket n (''treehub/'' @ p @ ''/'' @ s))]
      else [TeamCount n, ObjectUpsert OnTx n (p @ s),
            BlobPut (InBucket n (''treehub/'' @ p @ ''/'' @ s)),
            ObjectUpdate OnTx n (p @ s)])"
  by (simp add: upload_team_def Let_def transaction_def putObject_def split: option.splits)

lemma download_ns_trace:
  "fst (snd (download_ns g w n p s)) =
     (if findUnique w n (p @ s) = None then [ObjectFindUnique n (p @ s)]
      else [ObjectFindUnique n (p @ s), BlobGet (Flat (n @ ''/'' @ p @ ''/'' @ s))])"
  by (simp add: download_ns_def Let_def split: fetched.splits)

lemma download_team_trace:
  "fst (snd (download_team g w n p s)) =
     (if findUnique w n (p @ s) = None then [ObjectFindUnique n (p @ s)]
      else [ObjectFindUnique n (p @ s), BlobGet (InBucket n (''treehub/'' @ p @ ''/'' @ s))])"
  by (simp add: download_team_def Let_def split: fetched.splits)



subsection \<open>Identifiers without a slash\<close>





subsection \<open>What an upload leaves alone\<close>











subsection \<open>The concrete worlds\<close>

lemma demo_rows_team: "findUnique demo_rows ''team-1'' (''ab'' @ ''cdef'') \<noteq> None"
  by (simp add: findUnique_def has_key_def demo_rows_def demo_world_def)

lemma demo_rows_ns: "findUnique demo_rows ''ns-1'' (''ab'' @ ''cdef'') \<noteq> None"
  by (simp add: findUnique_def has_key_def demo_rows_def demo_world_def)

lemma demo_world_none: "findUnique demo_world ''ns-1'' (''ab'' @ ''cdef'') = None"
  by (simp add: findUnique_def has_key_def demo_world_def)

section \<open>Upload: the declared size\<close>

text \<open>
  C5. An upload whose content-length header is missing, parses to zero, or does not
  parse to a number (\<open>parseInt\<close> gives NaN) is answered with 400 by both upload
  handlers, with an empty list of store calls and the world unchanged: no relational
  query, no row created or changed, no blob written.
\<close>

theorem upload_rejects_bad_size:
  assumes "content_length = None \<or> parseInt content_length = Some 0
             \<or> parseInt content_length = None"
  shows "upload_team put_ok w t p s c content_length = (Responded 400 None NoBody, [], w)
       \<and> upload_ns fk put_ok w n p s c content_length = (Responded 400 None NoBody, [], w)"
proof -
  from assms have "size_rejected (parseInt content_length)"
    using parseInt_absent by (auto simp: size_rejected_iff)
  then show ?thesis by (simp add: upload_team_def upload_ns_def Let_def)
qed

theorem upload_rejects_bad_size_witness:
  "upload_team True demo_world ''team-1'' ''ab'' ''cdef'' ''data'' None
     = (Responded 400 None NoBody, [], demo_world)
   \<and> upload_ns False True demo_world ''ns-1'' ''ab'' ''cdef'' ''data'' None
     = (Responded 400 None NoBody, [], demo_world)
   \<and> upload_team True demo_world ''team-1'' ''ab'' ''cdef'' ''data'' (Some ''0'')
     = (Responded 400 None NoBody, [], demo_world)
   \<and> upload_ns False True demo_world ''ns-1'' ''ab'' ''cdef'' ''data'' (Some ''0'')
     = (Responded 400 None NoBody, [], demo_world)
   \<and> upload_team True demo_world ''team-1'' ''ab'' ''cdef'' ''data'' (Some ''four'')
     = (Responded 400 None NoBody, [], demo_world)
   \<and> upload_ns False True demo_world ''ns-1'' ''ab'' ''cdef'' ''data'' (Some ''four'')
     = (Responded 400 None NoBody, [], demo_world)"
  using upload_rejects_bad_size
          [of None True demo_world "''team-1''" "''ab''" "''cdef''" "''data''" False "''ns-1''"]
        upload_rejects_bad_size
          [of "Some ''0''" True demo_world "''team-1''" "''ab''" "''cdef''" "''data''" False "''ns-1''"]
        upload_rejects_bad_size
          [of "Some ''four''" True demo_world "''team-1''" "''ab''" "''cdef''" "''data''" False "''ns-1''"]
  by (simp add: parseInt_def StrWhiteSpaceChar_def is_digit_def digit_value_def digits_value_def)

section \<open>The existence probe\<close>

text \<open>
  C3. The HEAD handler answers 200 exactly when the Object table has a row with the
  key (team, prefix + suffix), and 404 exactly when it has none. Its only store call
  is the \<open>findUnique\<close> on that key, so it issues no blob-store call; the answer is the
  same whatever the rows' status columns and whatever the blob store holds.
\<close>

theorem exists_team_relational_only:
  "exists_team w t p s =
     (if findUnique w t (p @ s) = None then Responded 404 None NoBody
      else Responded 200 None NoBody, [ObjectFindUnique t (p @ s)], w)
   \<and> (fst (exists_team w t p s) = Responded 200 None NoBody)
       = ((t, p @ s) \<in> set (map (\<lambda>r. (obj_tenant r, obj_object_id r)) (objects w)))
   \<and> (fst (exists_team w t p s) = Responded 404 None NoBody)
       = ((t, p @ s) \<notin> set (map (\<lambda>r. (obj_tenant r, obj_object_id r)) (objects w)))
   \<and> filter is_blob_call (fst (snd (exists_team w t p s))) = []
   \<and> fst (exists_team
            (w\<lparr>objects := map (\<lambda>r. r\<lparr>obj_status := f r\<rparr>) (objects w), blobs := b\<rparr>) t p s)
       = fst (exists_team w t p s)"
proof -
  have m: "set (map (\<lambda>r. (obj_tenant r, obj_object_id r))
                 (map (\<lambda>r. r\<lparr>obj_status := f r\<rparr>) (objects w)))
      = set (map (\<lambda>r. (obj_tenant r, obj_object_id r)) (objects w))"
    by (simp add: comp_def)
  show ?thesis
    unfolding exists_team_def Let_def findUnique_None_iff
    using m by (simp add: is_blob_call_def)
qed

section \<open>Upload: a blob write that fails\<close>

text \<open>
  C1, as amended. Both upload handlers issue the upsert and the blob write inside the
  callback of \<open>prisma.$transaction\<close>. When the upsert succeeds and the blob write
  fails, the callback throws, the handler ends with an error and the transaction is
  rolled back: the relational store, and so the Object row for (tenant, object_id), is
  exactly what it was before the upload. The row is not left in status uploading.
\<close>

theorem upload_blob_failure_rolls_back:
  assumes "\<not> size_rejected (parseInt content_length)"
  shows "(team_count w t \<noteq> 0 \<longrightarrow>
            upload_team False w t p s c content_length =
              (Rejected, [TeamCount t, ObjectUpsert OnTx t (p @ s),
                          BlobPut (InBucket t (''treehub/'' @ p @ ''/'' @ s))], w))
       \<and> (\<not> (fk \<and> namespace_count w t = 0) \<longrightarrow>
            upload_ns fk False w t p s c content_length =
              (Rejected, [ObjectUpsert OnTx t (p @ s),
                          BlobPut (Flat (t @ ''/'' @ p @ ''/'' @ s))], w))"
  using assms
  by (simp add: upload_team_def upload_ns_def Let_def transaction_def putObject_def
        rollback_upsert)

theorem upload_blob_failure_rolls_back_witness:
  "upload_team False demo_world ''team-1'' ''ab'' ''cdef'' ''data'' (Some ''4'') =
     (Rejected, [TeamCount ''team-1'', ObjectUpsert OnTx ''team-1'' ''abcdef'',
                 BlobPut (InBucket ''team-1'' ''treehub/ab/cdef'')], demo_world)
   \<and> upload_ns True False demo_world ''ns-1'' ''ab'' ''cdef'' ''data'' (Some ''4'') =
     (Rejected, [ObjectUpsert OnTx ''ns-1'' ''abcdef'', BlobPut (Flat ''ns-1/ab/cdef'')],
      demo_world)"
proof -
  have v: "\<not> size_rejected (parseInt (Some ''4''))"
    by (simp add: parseInt_4 size_rejected_iff)
  have t: "team_count demo_world ''team-1'' \<noteq> 0"
    by (simp add: team_count_def demo_world_def)
  have n: "\<not> (True \<and> namespace_count demo_world ''ns-1'' = 0)"
    by (simp add: namespace_count_def demo_world_def)
  from upload_blob_failure_rolls_back [OF v, of demo_world "''team-1''" "''ab''" "''cdef''" "''data''" True]
       upload_blob_failure_rolls_back [OF v, of demo_world "''ns-1''" "''ab''" "''cdef''" "''data''" True]
       t n
  show ?thesis by simp
qed

text \<open>
  The claim as stated fails: after an upload whose blob write fails there is no row at
  all for an object that had none before, and a row that was uploaded before is still
  uploaded.
\<close>

theorem upload_blob_failure_row_not_uploading:
  "fst (upload_team False demo_world ''team-1'' ''ab'' ''cdef'' ''data'' (Some ''4'')) = Rejected
   \<and> findUnique (snd (snd (upload_team False demo_world ''team-1'' ''ab'' ''cdef'' ''data'' (Some ''4''))))
        ''team-1'' ''abcdef'' = None
   \<and> fst (upload_ns True False demo_world ''ns-1'' ''ab'' ''cdef'' ''data'' (Some ''4'')) = Rejected
   \<and> findUnique (snd (snd (upload_ns True False demo_world ''ns-1'' ''ab'' ''cdef'' ''data'' (Some ''4''))))
        ''ns-1'' ''abcdef'' = None
   \<and> fst (download_ns (\<lambda>l. Nothing)
            (snd (snd (upload_ns True False demo_world ''ns-1'' ''ab'' ''cdef'' ''data'' (Some ''4''))))
            ''ns-1'' ''ab'' ''cdef'') = Responded 404 None NoBody
   \<and> findUnique (snd (snd (upload_ns True False demo_rows ''ns-1'' ''ab'' ''cdef'' ''data'' (Some ''4''))))
        ''ns-1'' ''abcdef''
      = Some \<lparr>obj_tenant = ''ns-1'', obj_object_id = ''abcdef'', obj_size = 4, obj_status = uploaded\<rparr>"
  by (simp add: upload_team_def upload_ns_def download_ns_def Let_def transaction_def
        putObject_def rollback_upsert parseInt_4 size_rejected_iff team_count_def
        namespace_count_def demo_world_def demo_rows_def findUnique_def has_key_def)

section \<open>Download\<close>

text \<open>
  What both download handlers do get right. Without an Object row for the pair they
  answer 404 after the single \<open>findUnique\<close>, without a blob-store call. With a
  row they fetch the blob and leave both stores as they are. A fetch that resolves
  with the content is answered with 200, the bytes and the content type
  \<open>application/octet-stream\<close>. A fetch that throws is answered with 500 by the team
  snapshot, and a fetch that resolves with nothing is answered with 500 by the
  namespace snapshot.
\<close>

lemma download_handled:
  "(findUnique w t (p @ s) = None \<longrightarrow>
      download_team g w t p s = (Responded 404 None NoBody, [ObjectFindUnique t (p @ s)], w)
    \<and> download_ns g w t p s = (Responded 404 None NoBody, [ObjectFindUnique t (p @ s)], w))
   \<and> (findUnique w t (p @ s) \<noteq> None \<longrightarrow>
      (g (InBucket t (''treehub/'' @ p @ ''/'' @ s)) = Throws \<longrightarrow>
         download_team g w t p s =
           (Responded 500 None NoBody,
            [ObjectFindUnique t (p @ s), BlobGet (InBucket t (''treehub/'' @ p @ ''/'' @ s))], w))
    \<and> (g (Flat (t @ ''/'' @ p @ ''/'' @ s)) = Nothing \<longrightarrow>
         download_ns g w t p s =
           (Responded 500 None NoBody,
            [ObjectFindUnique t (p @ s), BlobGet (Flat (t @ ''/'' @ p @ ''/'' @ s))], w))
    \<and> (g (InBucket t (''treehub/'' @ p @ ''/'' @ s)) = Content c \<longrightarrow>
         download_team g w t p s =
           (Responded 200 (Some ''application/octet-stream'') (Bytes c),
            [ObjectFindUnique t (p @ s), BlobGet (InBucket t (''treehub/'' @ p @ ''/'' @ s))], w))
    \<and> (g (Flat (t @ ''/'' @ p @ ''/'' @ s)) = Content c \<longrightarrow>
         download_ns g w t p s =
           (Responded 200 (Some ''application/octet-stream'') (Bytes c),
            [ObjectFindUnique t (p @ s), BlobGet (Flat (t @ ''/'' @ p @ ''/'' @ s))], w)))"
  by (simp add: download_team_def download_ns_def Let_def)

lemma download_handled_example:
  "download_ns (\<lambda>l. Content ''data'') demo_world ''ns-1'' ''ab'' ''cdef''
     = (Responded 404 None NoBody, [ObjectFindUnique ''ns-1'' ''abcdef''], demo_world)
   \<and> download_team (\<lambda>l. Throws) demo_rows ''team-1'' ''ab'' ''cdef''
     = (Responded 500 None NoBody,
        [ObjectFindUnique ''team-1'' ''abcdef'', BlobGet (InBucket ''team-1'' ''treehub/ab/cdef'')],
        demo_rows)
   \<and> download_ns (\<lambda>l. Nothing) demo_rows ''ns-1'' ''ab'' ''cdef''
     = (Responded 500 None NoBody,
        [ObjectFindUnique ''ns-1'' ''abcdef'', BlobGet (Flat ''ns-1/ab/cdef'')], demo_rows)
   \<and> download_team (\<lambda>l. Content ''data'') demo_rows ''team-1'' ''ab'' ''cdef''
     = (Responded 200 (Some ''application/octet-stream'') (Bytes ''data''),
        [ObjectFindUnique ''team-1'' ''abcdef'', BlobGet (InBucket ''team-1'' ''treehub/ab/cdef'')],
        demo_rows)
   \<and> download_ns (\<lambda>l. Content ''data'') demo_rows ''ns-1'' ''ab'' ''cdef''
     = (Responded 200 (Some ''application/octet-stream'') (Bytes ''data''),
        [ObjectFindUnique ''ns-1'' ''abcdef'', BlobGet (Flat ''ns-1/ab/cdef'')], demo_rows)"
  using download_handled
          [of demo_world "''ns-1''" "''ab''" "''cdef''" "\<lambda>l. Content ''data''" "''data''"]
        download_handled
          [of demo_rows "''team-1''" "''ab''" "''cdef''" "\<lambda>l. Throws" "''data''"]
        download_handled
          [of demo_rows "''ns-1''" "''ab''" "''cdef''" "\<lambda>l. Nothing" "''data''"]
        download_handled
          [of demo_rows "''team-1''" "''ab''" "''cdef''" "\<lambda>l. Content ''data''" "''data''"]
        download_handled
          [of demo_rows "''ns-1''" "''ab''" "''cdef''" "\<lambda>l. Content ''data''" "''data''"]
        demo_rows_team demo_rows_ns demo_world_none
  by simp

text \<open>
  C4. The claim asks for a 500 whenever a row exists and the fetch fails or returns
  nothing. Each handler meets one of the two: with a row present, the team snapshot
  answers a fetch that resolves with nothing with 200, the binary content type and an
  empty body, and the namespace snapshot does not answer a fetch that throws at all
  (the handler rejects). Both handlers carry the comment that a row without a blob
  means the stores are out of sync and the request must bail, and each handles the
  case the other misses.
\<close>

theorem download_unhandled_fetch_modes:
  "findUnique demo_rows ''team-1'' ''abcdef'' \<noteq> None
   \<and> download_team (\<lambda>l. Nothing) demo_rows ''team-1'' ''ab'' ''cdef''
     = (Responded 200 (Some ''application/octet-stream'') NoBody,
        [ObjectFindUnique ''team-1'' ''abcdef'', BlobGet (InBucket ''team-1'' ''treehub/ab/cdef'')],
        demo_rows)
   \<and> findUnique demo_rows ''ns-1'' ''abcdef'' \<noteq> None
   \<and> download_ns (\<lambda>l. Throws) demo_rows ''ns-1'' ''ab'' ''cdef''
     = (Rejected,
        [ObjectFindUnique ''ns-1'' ''abcdef'', BlobGet (Flat ''ns-1/ab/cdef'')], demo_rows)"
  by (simp add: download_team_def download_ns_def Let_def findUnique_def has_key_def
        demo_rows_def demo_world_def)

section \<open>Upload to an unknown tenant\<close>

text \<open>
  C6. The team snapshot counts the team's rows and answers 400 before any write
  (\<open>upload_team_unknown_team\<close>). The namespace snapshot has no such check: for the
  namespace \<open>ghost\<close>, which has no row, an upload with a valid size goes straight to
  the upsert. Without a foreign key the request is answered with 200 and has written
  the Object row and the blob; with a foreign key the upsert throws and the handler
  rejects. In neither case is the answer 400.
\<close>

theorem upload_ns_unknown_namespace_not_refused:
  "namespace_count demo_world ''ghost'' = 0
   \<and> fst (upload_ns False True demo_world ''ghost'' ''ab'' ''cdef'' ''data'' (Some ''4''))
       = Responded 200 None NoBody
   \<and> findUnique
        (snd (snd (upload_ns False True demo_world ''ghost'' ''ab'' ''cdef'' ''data'' (Some ''4''))))
        ''ghost'' ''abcdef''
       = Some \<lparr>obj_tenant = ''ghost'', obj_object_id = ''abcdef'', obj_size = 4,
               obj_status = uploaded\<rparr>
   \<and> blobs
        (snd (snd (upload_ns False True demo_world ''ghost'' ''ab'' ''cdef'' ''data'' (Some ''4''))))
        (Flat ''ghost/ab/cdef'') = Some ''data''
   \<and> upload_ns True True demo_world ''ghost'' ''ab'' ''cdef'' ''data'' (Some ''4'')
       = (Rejected, [ObjectUpsert OnTx ''ghost'' ''abcdef''], demo_world)"
  by (simp add: upload_ns_def Let_def transaction_def putObject_def object_upsert_def
        object_update_def number_value_def rollback_def
        parseInt_4 size_rejected_iff namespace_count_def
        demo_world_def findUnique_def has_key_def)

lemma upload_team_unknown_team:
  "\<not> size_rejected (parseInt content_length) \<Longrightarrow> team_count w t = 0 \<Longrightarrow>
     upload_team put_ok w t p s c content_length
       = (Responded 400 None (Text ''could not upload ostree object''), [TeamCount t], w)"
  by (simp add: upload_team_def Let_def)

section \<open>Namespace creation\<close>

text \<open>
  C7. In the two snapshots with two repositories (\<open>create_namespace\<close>,
  \<open>create_namespace_rootca\<close>) a creation succeeds: it appends exactly one Namespace
  row and exactly two Metadata rows, one for the image repository and one for the
  director repository, both with role root and version 1; its relational statements
  are these three, all issued on the transaction client; and the response is 200 with
  the id, \<open>created_at\<close> and \<open>updated_at\<close> of the new row and nothing else. In the
  snapshot with a single metadata row no creation succeeds: for an id that no
  committed namespace row has, as a store-generated id is, the metadata statement on
  the global client throws, the handler rejects and the relational store is left as it
  was. So every successful creation is one of the first kind.
\<close>

theorem create_namespace_rows:
  "fst (create_namespace cfg env w)
     = Responded 200 None (NamespaceJson (ns_id (new_namespace env))
         (ns_created_at (new_namespace env)) (ns_updated_at (new_namespace env)))
   \<and> namespaces (snd (snd (create_namespace cfg env w))) = namespaces w @ [new_namespace env]
   \<and> take (length (metadata w)) (metadata (snd (snd (create_namespace cfg env w)))) = metadata w
   \<and> map md_summary
        (drop (length (metadata w)) (metadata (snd (snd (create_namespace cfg env w)))))
       = [(ns_id (new_namespace env), Some TUFRepo_image, TUFRole_root, 1),
          (ns_id (new_namespace env), Some TUFRepo_director, TUFRole_root, 1)]
   \<and> relational_calls (fst (snd (create_namespace cfg env w)))
       = [NamespaceCreate OnTx,
          MetadataCreate OnTx (ns_id (new_namespace env)) (Some TUFRepo_image) TUFRole_root 1,
          MetadataCreate OnTx (ns_id (new_namespace env)) (Some TUFRepo_director) TUFRole_root 1]
   \<and> fst (create_namespace_rootca cfg env w)
     = Responded 200 None (NamespaceJson (ns_id (new_namespace env))
         (ns_created_at (new_namespace env)) (ns_updated_at (new_namespace env)))
   \<and> namespaces (snd (snd (create_namespace_rootca cfg env w)))
       = namespaces w @ [new_namespace env]
   \<and> take (length (metadata w)) (metadata (snd (snd (create_namespace_rootca cfg env w))))
       = metadata w
   \<and> map md_summary
        (drop (length (metadata w)) (metadata (snd (snd (create_namespace_rootca cfg env w)))))
       = [(ns_id (new_namespace env), Some TUFRepo_image, TUFRole_root, 1),
          (ns_id (new_namespace env), Some TUFRepo_director, TUFRole_root, 1)]
   \<and> relational_calls (fst (snd (create_namespace_rootca cfg env w)))
       = [NamespaceCreate OnTx,
          MetadataCreate OnTx (ns_id (new_namespace env)) (Some TUFRepo_image) TUFRole_root 1,
          MetadataCreate OnTx (ns_id (new_namespace env)) (Some TUFRepo_director) TUFRole_root 1]
   \<and> (namespace_count w (ns_id (new_namespace env)) = 0 \<longrightarrow>
        create_namespace_single cfg env w
          = (Rejected,
             [NamespaceCreate OnTx,
              MetadataCreate OnClient (ns_id (new_namespace env)) None TUFRole_root 1],
             w))"
  by (simp add: create_namespace_def create_namespace_rootca_def create_namespace_single_def
        Let_def transaction_def metadata_putKeys namespaces_putKeys
        metadata_create_def namespace_create_def createBucket_def md_summary_def
        relational_calls_Cons relational_calls_KeyPut is_blob_call_def is_key_call_def
        rollback_namespace_create [unfolded namespace_create_def])

theorem create_namespace_rows_witness:
  "namespace_count demo_world ''ns-2'' = 0
   \<and> fst (create_namespace demo_cfg demo_env demo_world)
       = Responded 200 None (NamespaceJson ''ns-2'' 20 20)
   \<and> namespaces (snd (snd (create_namespace demo_cfg demo_env demo_world)))
       = [\<lparr>ns_id = ''ns-1'', ns_created_at = 10, ns_updated_at = 10\<rparr>,
          \<lparr>ns_id = ''ns-2'', ns_created_at = 20, ns_updated_at = 20\<rparr>]
   \<and> map md_summary (metadata (snd (snd (create_namespace demo_cfg demo_env demo_world))))
       = [(''ns-2'', Some TUFRepo_image, TUFRole_root, 1),
          (''ns-2'', Some TUFRepo_director, TUFRole_root, 1)]
   \<and> create_namespace_single demo_cfg demo_env demo_world
       = (Rejected,
          [NamespaceCreate OnTx, MetadataCreate OnClient ''ns-2'' None TUFRole_root 1],
          demo_world)"
proof -
  have n: "ns_id (new_namespace demo_env) = ''ns-2''"
    and c: "ns_created_at (new_namespace demo_env) = 20"
    and u: "ns_updated_at (new_namespace demo_env) = 20"
    and r: "new_namespace demo_env = \<lparr>ns_id = ''ns-2'', ns_created_at = 20, ns_updated_at = 20\<rparr>"
    by (simp_all add: demo_env_def)
  have f: "namespace_count demo_world ''ns-2'' = 0"
    by (simp add: namespace_count_def demo_world_def)
  have m: "metadata demo_world = []"
    and s: "namespaces demo_world = [\<lparr>ns_id = ''ns-1'', ns_created_at = 10, ns_updated_at = 10\<rparr>]"
    by (simp_all add: demo_world_def)
  note t = create_namespace_rows [of demo_cfg demo_env demo_world, unfolded n c u m]
  from t f show ?thesis
    by (simp add: r s)
qed

section \<open>Key identifiers\<close>

text \<open>
  C8. For a namespace that exists, the key identifiers that the deletion deletes are,
  in order, the identifiers that the creation of that namespace wrote; the lists, and
  so the sets, are equal. They are the identifiers \<open>spec_key_ids\<close> builds from the
  namespace id and the fixed enumeration of repository kind, role and use: the
  deletion computes them from the namespace id alone and issues no read of the key
  store.
  After the deletion none of the created identifiers is left in the key store. The
  same round trip holds in the snapshot with a root CA (eighteen identifiers). In the
  snapshot with a single metadata row the eight identifiers the deletion deletes are
  the eight that the creation's callback names for \<open>putKey\<close>.
\<close>

theorem deleted_keys_are_created_keys:
  assumes "namespace_count w' (ns_id (new_namespace env)) \<noteq> 0"
  shows "key_deletes (fst (snd (delete_namespace w' (ns_id (new_namespace env)))))
           = key_puts (fst (snd (create_namespace cfg env w)))
       \<and> key_deletes (fst (snd (delete_namespace w' (ns_id (new_namespace env)))))
           = spec_key_ids (ns_id (new_namespace env))
       \<and> key_gets (fst (snd (delete_namespace w' (ns_id (new_namespace env))))) = []
       \<and> list_all
           (\<lambda>k. keys (snd (snd (delete_namespace w' (ns_id (new_namespace env))))) k = None)
           (key_puts (fst (snd (create_namespace cfg env w))))
       \<and> key_deletes (fst (snd (delete_namespace_rootca w' (ns_id (new_namespace env)))))
           = key_puts (fst (snd (create_namespace_rootca cfg env w)))
       \<and> key_deletes (fst (snd (delete_namespace_single w' (ns_id (new_namespace env)))))
           = map fst (created_keys_single env (ns_id (new_namespace env)))"
proof -
  let ?n = "ns_id (new_namespace env)"
  have p: "key_puts (fst (snd (create_namespace cfg env w))) = map fst (created_keys env ?n)"
    by (simp add: create_namespace_def Let_def transaction_def key_puts_Cons key_puts_map)
  have d: "key_deletes (fst (snd (delete_namespace w' ?n))) = deleted_keys ?n"
    using assms
    by (simp add: delete_namespace_def Let_def transaction_def key_deletes_Cons key_deletes_map)
  have e: "map fst (created_keys env ?n) = deleted_keys ?n"
    by (simp add: created_keys_def deleted_keys_def)
  have g: "key_gets (fst (snd (delete_namespace w' ?n))) = []"
    using assms
    by (simp add: delete_namespace_def Let_def transaction_def key_gets_Cons key_gets_KeyDelete)
  have s: "deleted_keys ?n = spec_key_ids ?n"
    by (simp add: deleted_keys_def spec_key_ids_def spec_key_id_def repo_name_def
          role_name_def use_name_def)
  have k: "keys (snd (snd (delete_namespace w' ?n))) k
             = (if k \<in> set (deleted_keys ?n) then None else keys w' k)" for k
    using assms
    by (simp add: delete_namespace_def Let_def transaction_def keys_deleteKeys
          deleteBucket_def namespace_delete_def)
  have a: "list_all (\<lambda>k. keys (snd (snd (delete_namespace w' ?n))) k = None) (deleted_keys ?n)"
    unfolding list_all_iff k by simp
  have pr: "key_puts (fst (snd (create_namespace_rootca cfg env w)))
              = map fst (created_keys_rootca env ?n)"
    by (simp add: create_namespace_rootca_def Let_def transaction_def key_puts_Cons key_puts_map)
  have dr: "key_deletes (fst (snd (delete_namespace_rootca w' ?n))) = deleted_keys_rootca ?n"
    using assms
    by (simp add: delete_namespace_rootca_def Let_def transaction_def key_deletes_Cons
          key_deletes_map)
  have er: "map fst (created_keys_rootca env ?n) = deleted_keys_rootca ?n"
    by (simp add: created_keys_rootca_def deleted_keys_rootca_def e)
  have ds: "key_deletes (fst (snd (delete_namespace_single w' ?n))) = deleted_keys_single ?n"
    using assms
    by (simp add: delete_namespace_single_def Let_def transaction_def key_deletes_append
          key_deletes_Cons key_deletes_map key_deletes_BlobDelete)
  have es: "map fst (created_keys_single env ?n) = deleted_keys_single ?n"
    by (simp add: created_keys_single_def deleted_keys_single_def)
  show ?thesis
    using a by (simp add: p d e s g pr dr er ds es)
qed

theorem deleted_keys_are_created_keys_witness:
  "key_deletes (fst (snd (delete_namespace ca_world ''ns-2'')))
     = key_puts (fst (snd (create_namespace demo_cfg demo_env demo_world)))
   \<and> key_deletes (fst (snd (delete_namespace ca_world ''ns-2'')))
     = [''ns-2-image-root-private'', ''ns-2-image-targets-private'',
        ''ns-2-image-snapshot-private'', ''ns-2-image-timestamp-private'',
        ''ns-2-image-root-public'', ''ns-2-image-targets-public'',
        ''ns-2-image-snapshot-public'', ''ns-2-image-timestamp-public'',
        ''ns-2-director-root-private'', ''ns-2-director-targets-private'',
        ''ns-2-director-snapshot-private'', ''ns-2-director-timestamp-private'',
        ''ns-2-director-root-public'', ''ns-2-director-targets-public'',
        ''ns-2-director-snapshot-public'', ''ns-2-director-timestamp-public'']"
proof -
  have n: "ns_id (new_namespace demo_env) = ''ns-2''"
    by (simp add: demo_env_def)
  have h: "namespace_count ca_world (ns_id (new_namespace demo_env)) \<noteq> 0"
    by (simp add: n namespace_count_def ca_world_def)
  note t = deleted_keys_are_created_keys [OF h, of demo_cfg demo_world, unfolded n]
  have e: "spec_key_ids ''ns-2'' =
     [''ns-2-image-root-private'', ''ns-2-image-targets-private'',
      ''ns-2-image-snapshot-private'', ''ns-2-image-timestamp-private'',
      ''ns-2-image-root-public'', ''ns-2-image-targets-public'',
      ''ns-2-image-snapshot-public'', ''ns-2-image-timestamp-public'',
      ''ns-2-director-root-private'', ''ns-2-director-targets-private'',
      ''ns-2-director-snapshot-private'', ''ns-2-director-timestamp-private'',
      ''ns-2-director-root-public'', ''ns-2-director-targets-public'',
      ''ns-2-director-snapshot-public'', ''ns-2-director-timestamp-public'']"
    by (simp add: spec_key_ids_def spec_key_id_def repo_name_def role_name_def use_name_def)
  show ?thesis
  proof (intro conjI)
    show "key_deletes (fst (snd (delete_namespace ca_world ''ns-2'')))
            = key_puts (fst (snd (create_namespace demo_cfg demo_env demo_world)))"
      using t by blast
    have "key_deletes (fst (snd (delete_namespace ca_world ''ns-2''))) = spec_key_ids ''ns-2''"
      using t by blast
    then show "key_deletes (fst (snd (delete_namespace ca_world ''ns-2''))) =
     [''ns-2-image-root-private'', ''ns-2-image-targets-private'',
      ''ns-2-image-snapshot-private'', ''ns-2-image-timestamp-private'',
      ''ns-2-image-root-public'', ''ns-2-image-targets-public'',
      ''ns-2-image-snapshot-public'', ''ns-2-image-timestamp-public'',
      ''ns-2-director-root-private'', ''ns-2-director-targets-private'',
      ''ns-2-director-snapshot-private'', ''ns-2-director-timestamp-private'',
      ''ns-2-director-root-public'', ''ns-2-director-targets-public'',
      ''ns-2-director-snapshot-public'', ''ns-2-director-timestamp-public'']"
      using e by (rule trans)
  qed
qed

section \<open>The storage key\<close>

text \<open>
  C9, as amended. Upload and download of the namespace snapshot address the blob at
  the flat key \<open>{namespace}/{prefix}/{suffix}\<close>, for every prefix and suffix; there is
  no exception for the identifier \<open>summary\<close>. Upload and download of the team
  snapshot address it in the team's bucket at \<open>treehub/{prefix}/{suffix}\<close>. The
  per-object deletion of a namespace is where \<open>summary\<close> is treated apart: for a row
  with the identifier \<open>summary\<close> it derives \<open>{namespace}/summary\<close>, for any other
  identifier the key split after the first two characters.
\<close>

theorem blob_key_layout:
  "blob_locs (fst (snd (upload_ns fk put_ok w n p s c cl)))
     = (if size_rejected (parseInt cl) \<or> (fk \<and> namespace_count w n = 0) then []
        else [Flat (n @ ''/'' @ p @ ''/'' @ s)])
   \<and> blob_locs (fst (snd (download_ns g w n p s)))
     = (if findUnique w n (p @ s) = None then [] else [Flat (n @ ''/'' @ p @ ''/'' @ s)])
   \<and> blob_locs (fst (snd (upload_team put_ok w n p s c cl)))
     = (if size_rejected (parseInt cl) \<or> team_count w n = 0 then []
        else [InBucket n (''treehub/'' @ p @ ''/'' @ s)])
   \<and> blob_locs (fst (snd (download_team g w n p s)))
     = (if findUnique w n (p @ s) = None then []
        else [InBucket n (''treehub/'' @ p @ ''/'' @ s)])
   \<and> treehubBucketId
        \<lparr>obj_tenant = n, obj_object_id = ''summary'', obj_size = z, obj_status = st\<rparr>
     = n @ ''/summary''
   \<and> (i \<noteq> ''summary'' \<longrightarrow>
        treehubBucketId \<lparr>obj_tenant = n, obj_object_id = i, obj_size = z, obj_status = st\<rparr>
          = n @ ''/'' @ take 2 i @ ''/'' @ drop 2 i)"
  by (simp add: upload_ns_trace upload_team_trace download_ns_trace download_team_trace
        blob_locs_Cons treehubBucketId_def)

theorem blob_key_layout_witness:
  "blob_locs
     (fst (snd (upload_ns True True demo_world ''ns-1'' ''ab'' ''cdef'' ''data'' (Some ''4''))))
     = [Flat ''ns-1/ab/cdef'']
   \<and> blob_locs (fst (snd (download_ns (\<lambda>l. Nothing) demo_rows ''ns-1'' ''ab'' ''cdef'')))
     = [Flat ''ns-1/ab/cdef'']
   \<and> treehubBucketId
        \<lparr>obj_tenant = ''ns-1'', obj_object_id = ''abcdef'', obj_size = 4, obj_status = uploaded\<rparr>
     = ''ns-1/ab/cdef''"
  using blob_key_layout
          [of True True demo_world "''ns-1''" "''ab''" "''cdef''" "''data''" "Some ''4''"
              "\<lambda>l. Nothing" 4 uploaded "''abcdef''"]
        blob_key_layout
          [of True True demo_rows "''ns-1''" "''ab''" "''cdef''" "''data''" "Some ''4''"
              "\<lambda>l. Nothing" 4 uploaded "''abcdef''"]
  by (simp add: parseInt_4 size_rejected_iff namespace_count_def demo_world_def demo_rows_def
        findUnique_def has_key_def)

text \<open>
  The claim as stated fails: an upload whose prefix and suffix concatenate to
  \<open>summary\<close> stores the blob at the sharded key, nothing is stored at
  \<open>{namespace}/summary\<close>, and the download reads the sharded key.
\<close>

theorem summary_is_sharded_on_upload:
  "''su'' @ ''mmary'' = ''summary''
   \<and> fst (upload_ns True True demo_world ''ns-1'' ''su'' ''mmary'' ''data'' (Some ''4''))
       = Responded 200 None NoBody
   \<and> blob_locs
       (fst (snd (upload_ns True True demo_world ''ns-1'' ''su'' ''mmary'' ''data'' (Some ''4''))))
       = [Flat ''ns-1/su/mmary'']
   \<and> blobs
       (snd (snd (upload_ns True True demo_world ''ns-1'' ''su'' ''mmary'' ''data'' (Some ''4''))))
       (Flat ''ns-1/summary'') = None
   \<and> blobs
       (snd (snd (upload_ns True True demo_world ''ns-1'' ''su'' ''mmary'' ''data'' (Some ''4''))))
       (Flat ''ns-1/su/mmary'') = Some ''data''
   \<and> blob_locs (fst (snd (download_ns (\<lambda>l. Nothing)
        (snd (snd (upload_ns True True demo_world ''ns-1'' ''su'' ''mmary'' ''data'' (Some ''4''))))
        ''ns-1'' ''su'' ''mmary'')))
       = [Flat ''ns-1/su/mmary'']"
  by (simp add: upload_ns_def download_ns_def Let_def transaction_def putObject_def
        object_upsert_def object_update_def number_value_def
        parseInt_4 size_rejected_iff namespace_count_def
        demo_world_def findUnique_def has_key_def blob_locs_Cons)

section \<open>Provisioning credentials\<close>

text \<open>
  C2, as amended. For a namespace id with no Namespace row the request is answered
  with 400 after the single count, before any key-store or blob-store access. For an
  existing namespace, when the key store holds a private and a public key under the
  fixed identifiers \<open>RootCAPrivateKeyId\<close> and \<open>RootCAPublicKeyId\<close> and the blob
  store holds a certificate at (\<open>RootCABucket\<close>, \<open>RootCACertObjId\<close>), the request is
  answered with 200 and an archive whose PKCS#12 container holds the fresh private key
  and a chain of two certificates: the leaf that \<open>generateCertificate\<close> issues for
  the fresh key pair when given that certificate as parent and that key pair as the
  signing pair, followed by that certificate. The identifiers are constants: they are
  the same for every namespace and are not derived from the namespace id.
\<close>

theorem provisioning_uses_fixed_root_ca:
  "(namespace_count w n = 0 \<longrightarrow>
      provisioning_credentials gc cfg cs g kp uuid w n
        = (Responded 400 None (Text ''could not create provisioning key''),
           [NamespaceCount n], w))
   \<and> (namespace_count w n \<noteq> 0
       \<and> keys w (RootCAPrivateKeyId cs) = Some priv
       \<and> keys w (RootCAPublicKeyId cs) = Some pub
       \<and> g (InBucket (RootCABucket cs) (RootCACertObjId cs)) = Content pem \<longrightarrow>
      provisioning_credentials gc cfg cs g kp uuid w n
        = (Responded 200 None
             (Archive
                [(''autoprov.url'',
                  UrlFile (ROBOT_GATEWAY_HOSTNAME cfg @ ''/api/v0/director/'' @ n)),
                 (''autoprov_credentials.p12'',
                  P12File \<lparr>p12_key = privateKey kp,
                           p12_chain =
                             [gc kp (Some \<lparr>commonName = uuid, cert = FromPem pem,
                                            keyPair = \<lparr>publicKey = pub, privateKey = priv\<rparr>\<rparr>),
                              FromPem pem],
                           p12_password = None\<rparr>)]),
           [NamespaceCount n, KeyGet (RootCAPrivateKeyId cs), KeyGet (RootCAPublicKeyId cs),
            BlobGet (InBucket (RootCABucket cs) (RootCACertObjId cs))],
           w))"
  by (simp add: provisioning_credentials_def Let_def)

theorem provisioning_uses_fixed_root_ca_witness:
  "provisioning_credentials generateCertificate demo_cfg demo_consts (stored ca_world) leaf_pair ''uuid-1''
       ca_world ''ns-3''
     = (Responded 400 None (Text ''could not create provisioning key''),
        [NamespaceCount ''ns-3''], ca_world)
   \<and> provisioning_credentials generateCertificate demo_cfg demo_consts (stored ca_world) leaf_pair ''uuid-1''
       ca_world ''ns-2''
     = (Responded 200 None
          (Archive
             [(''autoprov.url'', UrlFile ''https://gateway.example/api/v0/director/ns-2''),
              (''autoprov_credentials.p12'',
               P12File \<lparr>p12_key = ''leaf-priv'',
                        p12_chain = [Issued ''uuid-1'' ''leaf-pub'' (FromPem ''fixed-cert'')
                                       \<lparr>publicKey = ''fixed-pub'', privateKey = ''fixed-priv''\<rparr>,
                                     FromPem ''fixed-cert''],
                        p12_password = None\<rparr>)]),
        [NamespaceCount ''ns-2'', KeyGet ''root-ca-private'', KeyGet ''root-ca-public'',
         BlobGet (InBucket ''root-ca'' ''cert'')],
        ca_world)"
  using provisioning_uses_fixed_root_ca
          [of ca_world "''ns-3''" generateCertificate demo_cfg demo_consts "stored ca_world"
              leaf_pair "''uuid-1''" "''fixed-priv''" "''fixed-pub''" "''fixed-cert''"]
        provisioning_uses_fixed_root_ca
          [of ca_world "''ns-2''" generateCertificate demo_cfg demo_consts "stored ca_world"
              leaf_pair "''uuid-1''" "''fixed-priv''" "''fixed-pub''" "''fixed-cert''"]
  by (simp add: namespace_count_def ca_world_def demo_consts_def demo_cfg_def stored_def
        leaf_pair_def generateCertificate_def)

text \<open>
  The claim as stated fails: in \<open>ca_world\<close> the stores hold a root CA under
  identifiers made from the id of \<open>ns-1\<close>, yet the credentials issued for \<open>ns-1\<close>
  are signed with the key pair and chained to the certificate under the fixed
  identifiers, and the requests for \<open>ns-1\<close> and \<open>ns-2\<close> load the same key
  identifiers, none of which contains a namespace id.
\<close>

theorem provisioning_root_ca_not_per_namespace:
  "keys ca_world ''ns-1-rootca-private'' = Some ''ns-1-priv''
   \<and> blobs ca_world (InBucket ''ns-1'' ''rootca'') = Some ''ns-1-cert''
   \<and> fst (provisioning_credentials generateCertificate demo_cfg demo_consts (stored ca_world) leaf_pair ''uuid-1''
            ca_world ''ns-1'')
     = Responded 200 None
          (Archive
             [(''autoprov.url'', UrlFile ''https://gateway.example/api/v0/director/ns-1''),
              (''autoprov_credentials.p12'',
               P12File \<lparr>p12_key = ''leaf-priv'',
                        p12_chain = [Issued ''uuid-1'' ''leaf-pub'' (FromPem ''fixed-cert'')
                                       \<lparr>publicKey = ''fixed-pub'', privateKey = ''fixed-priv''\<rparr>,
                                     FromPem ''fixed-cert''],
                        p12_password = None\<rparr>)])
   \<and> key_gets (fst (snd (provisioning_credentials generateCertificate demo_cfg demo_consts (stored ca_world)
                           leaf_pair ''uuid-1'' ca_world ''ns-1'')))
     = [''root-ca-private'', ''root-ca-public'']
   \<and> key_gets (fst (snd (provisioning_credentials generateCertificate demo_cfg demo_consts (stored ca_world)
                           leaf_pair ''uuid-1'' ca_world ''ns-2'')))
     = [''root-ca-private'', ''root-ca-public'']
   \<and> blob_locs (fst (snd (provisioning_credentials generateCertificate demo_cfg demo_consts (stored ca_world)
                            leaf_pair ''uuid-1'' ca_world ''ns-1'')))
     = [InBucket ''root-ca'' ''cert'']"
  by (simp add: provisioning_credentials_def Let_def generateCertificate_def
        namespace_count_def ca_world_def demo_consts_def demo_cfg_def stored_def leaf_pair_def
        key_gets_Cons blob_locs_Cons)

section \<open>Tenant isolation of the object handlers\<close>



end
